theory Spec2Isabelle
  imports Complex_Main "HOL-Library.Word"
begin

section \<open>The range type \<open>Lim\<close> (cmp\_datamodels.h)\<close>

text \<open>
  \<^verbatim>\<open>template <class ValueType> struct Lim { ValueType min; ValueType max; ... }\<close>

  The struct is a record that is polymorphic in \<open>ValueType\<close>. The fields are called
  \<open>min\<close> and \<open>max\<close> in the source; they carry the suffix \<open>_lim\<close> here because
  \<open>min\<close> and \<open>max\<close> are constants of HOL.

  \<open>ValueType\<close> is a parameter of the template, and so are its operators: the quotient
  \<^verbatim>\<open>/\<close> and the comparison \<^verbatim>\<open>==\<close> of \<open>ValueType\<close> are parameters (\<open>quot\<close>, \<open>eq\<close>) of the
  functions that use them, so that nothing of HOL's own division (which rounds down on
  \<open>int\<close> and is defined at zero) or of HOL's own equality (which is reflexive) is taken
  for the operators of the source. The comparisons with \<open>static_cast<ValueType>(0)\<close> in
  \<open>operator bool\<close> and \<open>isMinOrMaxZero\<close> are those of the class \<open>zero\<close> with HOL
  equality.
\<close>

record 'a Lim =
  min_lim :: 'a
  max_lim :: 'a

text \<open>The constructor \<^verbatim>\<open>Lim(new_min, new_max) : min{new_min}, max{new_max}\<close>.\<close>

definition Lim_ctor :: "'a \<Rightarrow> 'a \<Rightarrow> 'a Lim" where
  "Lim_ctor new_min new_max = \<lparr>min_lim = new_min, max_lim = new_max\<rparr>"

text \<open>
  The struct declares the constructor above and no other, so it has no default
  constructor: a declaration \<^verbatim>\<open>Lim<ValueType> new_lim;\<close> is ill-formed, and the compiler
  rejects every instantiation of a template that contains it. Default construction is
  therefore the error \<open>NoDefaultConstructor\<close>, for every \<open>ValueType\<close>.
\<close>

datatype ill_formed = NoDefaultConstructor

definition Lim_default_ctor :: "ill_formed + 'a Lim" where
  "Lim_default_ctor = Inl NoDefaultConstructor"

text \<open>
  Member functions that assign to \<^verbatim>\<open>*this\<close> and return \<^verbatim>\<open>*this\<close> by reference are
  modelled on an explicit store of \<open>Lim\<close> objects: the function takes the store and the
  address \<open>this\<close>, and returns the new store together with the address the returned
  reference designates. A call on an address that holds no object has no result.
\<close>

type_synonym addr = nat

type_synonym 'a store = "addr \<rightharpoonup> 'a Lim"

text \<open>
  \<^verbatim>\<open>Lim& operator/=(const ValueType val) { min /= val; max /= val; return *this; }\<close>
  with \<open>quot\<close> the quotient of \<open>ValueType\<close>.
\<close>

definition op_div_assign ::
  "('a \<Rightarrow> 'a \<Rightarrow> 'a) \<Rightarrow> 'a store \<Rightarrow> addr \<Rightarrow> 'a \<Rightarrow> ('a store \<times> addr) option" where
  "op_div_assign quot s this val =
     (case s this of
        None \<Rightarrow> None
      | Some l \<Rightarrow>
          let l1 = l\<lparr>min_lim := quot (min_lim l) val\<rparr>;
              l2 = l1\<lparr>max_lim := quot (max_lim l1) val\<rparr>
          in Some (s(this \<mapsto> l2), this))"

text \<open>
  \<^verbatim>\<open>Lim& operator=(const Lim rhs) { min = rhs.min; max = rhs.max; return *this; }\<close>
  The argument is taken by value, so \<open>rhs\<close> is a copy of the caller's object.
\<close>

definition op_assign :: "'a store \<Rightarrow> addr \<Rightarrow> 'a Lim \<Rightarrow> ('a store \<times> addr) option" where
  "op_assign s this rhs =
     (case s this of
        None \<Rightarrow> None
      | Some l \<Rightarrow>
          let l1 = l\<lparr>min_lim := min_lim rhs\<rparr>;
              l2 = l1\<lparr>max_lim := max_lim rhs\<rparr>
          in Some (s(this \<mapsto> l2), this))"

text \<open>
  The copy assignment the compiler would generate for the struct, for comparison with
  \<open>op_assign\<close>: the object at \<open>this\<close> becomes a copy of \<open>rhs\<close>, the reference returned
  is \<^verbatim>\<open>*this\<close>.
\<close>

definition default_copy_assign :: "'a store \<Rightarrow> addr \<Rightarrow> 'a Lim \<Rightarrow> ('a store \<times> addr) option" where
  "default_copy_assign s this rhs =
     (case s this of None \<Rightarrow> None | Some l \<Rightarrow> Some (s(this \<mapsto> rhs), this))"

text \<open>
  \<^verbatim>\<open>bool operator==(const Lim& rhs) const { return min == rhs.min && max == rhs.max; }\<close>
  with \<open>eq\<close> the comparison \<^verbatim>\<open>==\<close> of \<open>ValueType\<close>.
\<close>

definition op_eq :: "('a \<Rightarrow> 'a \<Rightarrow> bool) \<Rightarrow> 'a Lim \<Rightarrow> 'a Lim \<Rightarrow> bool" where
  "op_eq eq this rhs \<longleftrightarrow> eq (min_lim this) (min_lim rhs) \<and> eq (max_lim this) (max_lim rhs)"

text \<open>
  The values of \<^verbatim>\<open>float\<close> as far as \<^verbatim>\<open>==\<close> tells them apart: a number or a NaN (the
  two infinities compare like numbers and are left out). \<open>float_eq\<close> is \<^verbatim>\<open>==\<close> on
  \<^verbatim>\<open>float\<close>: two numbers are compared by value, and a comparison with a NaN on either
  side is false, also the comparison of a NaN with itself.
\<close>

datatype float = Finite real | NaN

fun float_eq :: "float \<Rightarrow> float \<Rightarrow> bool" where
  "float_eq (Finite x) (Finite y) = (x = y)"
| "float_eq NaN y = False"
| "float_eq x NaN = False"

text \<open>
  \<^verbatim>\<open>explicit operator bool() const { zero = static_cast<ValueType>(0);
     return max != zero || min != zero; }\<close>
\<close>

definition op_bool :: "('a::zero) Lim \<Rightarrow> bool" where
  "op_bool this = (let zero = 0 in max_lim this \<noteq> zero \<or> min_lim this \<noteq> zero)"

text \<open>
  \<^verbatim>\<open>bool isMinOrMaxZero() const { zero = static_cast<ValueType>(0);
     return max == zero || min == zero; }\<close>
\<close>

definition isMinOrMaxZero :: "('a::zero) Lim \<Rightarrow> bool" where
  "isMinOrMaxZero this = (let zero = 0 in max_lim this = zero \<or> min_lim this = zero)"

text \<open>
  The free operator
  \<^verbatim>\<open>Lim operator/(const Lim& rhs, const ValueType val)
     { Lim new_lim; new_lim.min = rhs.min / val; new_lim.max = rhs.max / val; return new_lim; }\<close>
  Its first statement default-constructs \<open>new_lim\<close>; the two assignments and the return
  are reached only with the object that statement yields.
\<close>

definition op_div :: "('a \<Rightarrow> 'a \<Rightarrow> 'a) \<Rightarrow> 'a Lim \<Rightarrow> 'a \<Rightarrow> ill_formed + 'a Lim" where
  "op_div quot rhs val =
     (case Lim_default_ctor of
        Inl e \<Rightarrow> Inl e
      | Inr new_lim \<Rightarrow>
          let new_lim1 = new_lim\<lparr>min_lim := quot (min_lim rhs) val\<rparr>;
              new_lim2 = new_lim1\<lparr>max_lim := quot (max_lim rhs) val\<rparr>
          in Inr new_lim2)"

section \<open>\<open>iota_delta\<close>\<close>





section \<open>The host toolkit's geometry: points, rectangles, transforms and paths\<close>

text \<open>
  \<open>getMarkerPathFrom\<close> builds a \<^verbatim>\<open>juce::Path\<close> with the path-building interface of
  the host GUI toolkit, whose code is not part of the repository. The definitions of
  this section stand for that interface. \<^verbatim>\<open>float\<close> is read as \<open>real\<close>: arithmetic is
  exact, and \<^verbatim>\<open>MathConstants<float>::pi\<close> is \<open>pi\<close>. A point is the pair of its \<open>x\<close> and
  \<open>y\<close> coordinates; on the screen \<open>y\<close> grows downwards, so the point with the smaller
  \<open>y\<close> is the higher one.
\<close>

type_synonym point = "real \<times> real"

text \<open>
  Modelled from the spec: \<^verbatim>\<open>juce::Rectangle<float>\<close> (the toolkit's rectangle/point geometry
  library, not under src/), a position and a size, as in the spec's
  "\<open>size \<times> size\<close> box".
\<close>

record rectangle =
  rect_x :: real
  rect_y :: real
  rect_w :: real
  rect_h :: real

definition getRight :: "rectangle \<Rightarrow> real" where
  "getRight r = rect_x r + rect_w r"

definition getBottom :: "rectangle \<Rightarrow> real" where
  "getBottom r = rect_y r + rect_h r"

definition getCentre :: "rectangle \<Rightarrow> point" where
  "getCentre r = (rect_x r + rect_w r / 2, rect_y r + rect_h r / 2)"

text \<open>
  Modelled from the spec: \<^verbatim>\<open>juce::Path\<close> (the toolkit's path-building API, not under src/),
  the sequence of the elements added to it: the start of a sub-path at a point, a
  straight line to a point, a cubic B\'ezier curve through two control points to a
  point, and the closing of the current sub-path.
\<close>

datatype path_element =
    StartNewSubPath point
  | LineTo point
  | CubicTo point point point
  | CloseSubPath

type_synonym path = "path_element list"

text \<open>
  Modelled from the spec: \<^verbatim>\<open>Path::startNewSubPath\<close>, \<^verbatim>\<open>Path::lineTo\<close>, \<^verbatim>\<open>Path::cubicTo\<close> and
  \<^verbatim>\<open>Path::closeSubPath\<close> (toolkit, not under src/). Each appends its element; a line
  or curve added to a path with no elements starts at the origin, and closing does
  nothing on a path that has no elements or has just been closed.
\<close>

definition startNewSubPath :: "point \<Rightarrow> path \<Rightarrow> path" where
  "startNewSubPath p path = path @ [StartNewSubPath p]"

definition lineTo :: "point \<Rightarrow> path \<Rightarrow> path" where
  "lineTo p path = (if path = [] then startNewSubPath (0, 0) path else path) @ [LineTo p]"

definition cubicTo :: "point \<Rightarrow> point \<Rightarrow> point \<Rightarrow> path \<Rightarrow> path" where
  "cubicTo c1 c2 p path =
     (if path = [] then startNewSubPath (0, 0) path else path) @ [CubicTo c1 c2 p]"

definition closeSubPath :: "path \<Rightarrow> path" where
  "closeSubPath path =
     (if path = [] \<or> last path = CloseSubPath then path else path @ [CloseSubPath])"

text \<open>
  Modelled from the spec: \<^verbatim>\<open>Path::addTriangle\<close> (toolkit, not under src/): the closed
  sub-path through the three corners, in the order given.
\<close>

definition addTriangle :: "point \<Rightarrow> point \<Rightarrow> point \<Rightarrow> path \<Rightarrow> path" where
  "addTriangle p1 p2 p3 path =
     closeSubPath (lineTo p3 (lineTo p2 (startNewSubPath p1 path)))"

text \<open>
  Modelled from the spec: \<^verbatim>\<open>Path::addRectangle (x, y, w, h)\<close> (toolkit, not under src/):
  the closed sub-path through the four corners of the box with top-left corner
  \<open>(x, y)\<close>, width \<open>w\<close> and height \<open>h\<close>, from the bottom-left corner; a negative width
  or height is normalised by swapping the two edges.
\<close>

definition addRectangle :: "real \<Rightarrow> real \<Rightarrow> real \<Rightarrow> real \<Rightarrow> path \<Rightarrow> path" where
  "addRectangle x y w h path =
     (let x1 = (if w < 0 then x + w else x);
          x2 = (if w < 0 then x else x + w);
          y1 = (if h < 0 then y + h else y);
          y2 = (if h < 0 then y else y + h)
      in closeSubPath (lineTo (x2, y2) (lineTo (x2, y1) (lineTo (x1, y1)
           (startNewSubPath (x1, y2) path)))))"

text \<open>
  Modelled from the spec: \<^verbatim>\<open>Path::addEllipse (area)\<close> (toolkit, not under src/): the
  ellipse inscribed in the rectangle \<open>area\<close>, as a closed sub-path of four cubic curves
  that starts at the middle of the top edge and passes through the middles of the
  right, bottom and left edges; the control points lie on the edges, at \<open>0.55\<close> of the
  half-width or half-height from the middle.
\<close>

definition addEllipse :: "rectangle \<Rightarrow> path \<Rightarrow> path" where
  "addEllipse area path =
     (let hw = rect_w area * 0.5;
          hw55 = hw * 0.55;
          hh = rect_h area * 0.5;
          hh55 = hh * 0.55;
          cx = rect_x area + hw;
          cy = rect_y area + hh
      in closeSubPath
           (cubicTo (cx - hw, cy - hh55) (cx - hw55, cy - hh) (cx, cy - hh)
           (cubicTo (cx - hw55, cy + hh) (cx - hw, cy + hh55) (cx - hw, cy)
           (cubicTo (cx + hw, cy + hh55) (cx + hw55, cy + hh) (cx, cy + hh)
           (cubicTo (cx + hw55, cy - hh) (cx + hw, cy - hh55) (cx + hw, cy)
           (startNewSubPath (cx, cy - hh) path))))))"

text \<open>
  Modelled from the spec: \<^verbatim>\<open>Point::getPointOnCircumference (radius, angle)\<close> (toolkit, not
  under src/): the point at distance \<open>radius\<close> from the centre, at \<open>angle\<close> radians
  clockwise from the upward direction.
\<close>

definition getPointOnCircumference :: "point \<Rightarrow> real \<Rightarrow> real \<Rightarrow> point" where
  "getPointOnCircumference centre radius angle =
     (fst centre + radius * sin angle, snd centre - radius * cos angle)"

text \<open>
  Modelled from the spec: \<^verbatim>\<open>Path::addStar (centre, numberOfPoints, innerRadius,
  outerRadius, startAngle)\<close> (toolkit, not under src/): the closed sub-path of a star
  with \<open>numberOfPoints\<close> tips at distance \<open>outerRadius\<close> from the centre, the first at
  \<open>startAngle\<close>, and between two tips a corner at distance \<open>innerRadius\<close>. \<open>star_point\<close>
  is the body of its loop for the tip with index \<open>i\<close>. Nothing is added unless
  \<open>numberOfPoints > 1\<close>.
\<close>

definition star_point :: "point \<Rightarrow> real \<Rightarrow> real \<Rightarrow> real \<Rightarrow> real \<Rightarrow> nat \<Rightarrow> path \<Rightarrow> path" where
  "star_point centre innerRadius outerRadius startAngle angleBetweenPoints i path =
     (let angle = startAngle + real i * angleBetweenPoints;
          p = getPointOnCircumference centre outerRadius angle;
          path1 = (if i = 0 then startNewSubPath p path else lineTo p path)
      in lineTo (getPointOnCircumference centre innerRadius (angle + angleBetweenPoints * 0.5))
           path1)"

definition addStar :: "point \<Rightarrow> int \<Rightarrow> real \<Rightarrow> real \<Rightarrow> real \<Rightarrow> path \<Rightarrow> path" where
  "addStar centre numberOfPoints innerRadius outerRadius startAngle path =
     (if numberOfPoints > 1 then
        (let angleBetweenPoints = 2 * pi / real_of_int numberOfPoints
         in closeSubPath
              (fold (star_point centre innerRadius outerRadius startAngle angleBetweenPoints)
                 [0 ..< nat numberOfPoints] path))
      else path)"

text \<open>
  Modelled from the spec: \<^verbatim>\<open>juce::AffineTransform\<close> (toolkit, not under src/), the map
  \<open>(x, y) \<mapsto> (mat00 * x + mat01 * y + mat02, mat10 * x + mat11 * y + mat12)\<close>, and
  \<^verbatim>\<open>AffineTransform::rotation (angle, pivotX, pivotY)\<close>, the rotation by \<open>angle\<close> radians
  about the pivot, clockwise on the screen.
\<close>

record AffineTransform =
  mat00 :: real
  mat01 :: real
  mat02 :: real
  mat10 :: real
  mat11 :: real
  mat12 :: real

definition rotation :: "real \<Rightarrow> real \<Rightarrow> real \<Rightarrow> AffineTransform" where
  "rotation rad pivotX pivotY =
     (let cosRad = cos rad; sinRad = sin rad
      in \<lparr>mat00 = cosRad, mat01 = - sinRad,
          mat02 = - cosRad * pivotX + sinRad * pivotY + pivotX,
          mat10 = sinRad, mat11 = cosRad,
          mat12 = - sinRad * pivotX + - cosRad * pivotY + pivotY\<rparr>)"

definition transformPoint :: "AffineTransform \<Rightarrow> point \<Rightarrow> point" where
  "transformPoint t p =
     (mat00 t * fst p + mat01 t * snd p + mat02 t, mat10 t * fst p + mat11 t * snd p + mat12 t)"

text \<open>
  Modelled from the spec: \<^verbatim>\<open>Path::applyTransform\<close> (toolkit, not under src/): every point of
  every element, control points included, is replaced by its image.
\<close>

fun map_points :: "(point \<Rightarrow> point) \<Rightarrow> path_element \<Rightarrow> path_element" where
  "map_points f (StartNewSubPath p) = StartNewSubPath (f p)"
| "map_points f (LineTo p) = LineTo (f p)"
| "map_points f (CubicTo c1 c2 p) = CubicTo (f c1) (f c2) (f p)"
| "map_points f CloseSubPath = CloseSubPath"

definition applyTransform :: "AffineTransform \<Rightarrow> path \<Rightarrow> path" where
  "applyTransform t path = map (map_points (transformPoint t)) path"

text \<open>
  Modelled from the spec: \<^verbatim>\<open>Path::isEmpty\<close> (toolkit, not under src/): a path is empty when
  it has no line and no curve, whatever sub-paths were started or closed.
\<close>

fun is_drawing :: "path_element \<Rightarrow> bool" where
  "is_drawing (StartNewSubPath p) = False"
| "is_drawing (LineTo p) = True"
| "is_drawing (CubicTo c1 c2 p) = True"
| "is_drawing CloseSubPath = False"

definition isEmpty :: "path \<Rightarrow> bool" where
  "isEmpty path = (filter is_drawing path = [])"

text \<open>
  Modelled from the spec: \<^verbatim>\<open>Path::getBounds\<close> (toolkit, not under src/): the smallest
  rectangle that contains every point of every element, control points included; the
  rectangle at the origin with no size for a path without points.
\<close>

fun element_points :: "path_element \<Rightarrow> point list" where
  "element_points (StartNewSubPath p) = [p]"
| "element_points (LineTo p) = [p]"
| "element_points (CubicTo c1 c2 p) = [c1, c2, p]"
| "element_points CloseSubPath = []"

definition path_points :: "path \<Rightarrow> point list" where
  "path_points path = concat (map element_points path)"

definition getBounds :: "path \<Rightarrow> rectangle" where
  "getBounds path =
     (case path_points path of
        [] \<Rightarrow> \<lparr>rect_x = 0, rect_y = 0, rect_w = 0, rect_h = 0\<rparr>
      | p # ps \<Rightarrow>
          let pathXMin = fold min (map fst ps) (fst p);
              pathXMax = fold max (map fst ps) (fst p);
              pathYMin = fold min (map snd ps) (snd p);
              pathYMax = fold max (map snd ps) (snd p)
          in \<lparr>rect_x = pathXMin, rect_y = pathYMin,
               rect_w = pathXMax - pathXMin, rect_h = pathYMax - pathYMin\<rparr>)"

text \<open>
  Modelled from the spec: \<^verbatim>\<open>Point::getDistanceFromOrigin\<close> (toolkit, not under src/), the
  radius at which a point lies.
\<close>

definition getDistanceFromOrigin :: "point \<Rightarrow> real" where
  "getDistanceFromOrigin p = sqrt (fst p * fst p + snd p * snd p)"

section \<open>\<open>Marker\<close> and the marker geometry builder (cmp\_datamodels.h)\<close>

text \<open>
  \<^verbatim>\<open>enum class Type { Circle, Pentagram, Square, UpTriangle, RightTriangle, DownTriangle,
  LeftTriangle }\<close>. A scoped enumeration without an explicit underlying type has the
  underlying type \<^verbatim>\<open>int\<close>, and every value of the underlying type is a value of the
  enumeration (\<^verbatim>\<open>static_cast<Marker::Type>(42)\<close>); so the type is the 32-bit word and the
  enumerators are the constants \<open>0\<close> to \<open>6\<close>.
\<close>

type_synonym Type = "32 word"

definition Circle :: Type where "Circle = 0"
definition Pentagram :: Type where "Pentagram = 1"
definition Square :: Type where "Square = 2"
definition UpTriangle :: Type where "UpTriangle = 3"
definition RightTriangle :: Type where "RightTriangle = 4"
definition DownTriangle :: Type where "DownTriangle = 5"
definition LeftTriangle :: Type where "LeftTriangle = 6"

definition recognized_types :: "Type set" where
  "recognized_types =
     {Circle, Pentagram, Square, UpTriangle, RightTriangle, DownTriangle, LeftTriangle}"

text \<open>
  Modelled from the spec: \<^verbatim>\<open>juce::Colour\<close> and \<^verbatim>\<open>juce::PathStrokeType\<close> (toolkit, not under
  src/), the types of the marker's "optional edge/fill colors and a stroke style": a
  colour is its 32-bit ARGB value, a stroke type a thickness, a joint style and an end
  cap style.
\<close>

type_synonym Colour = "32 word"

datatype JointStyle = mitered | curved | beveled

datatype EndCapStyle = butt | square | rounded

record PathStrokeType =
  thickness :: real
  joint_style :: JointStyle
  end_style :: EndCapStyle

text \<open>
  \<^verbatim>\<open>struct Marker { Type type; std::optional<juce::Colour> EdgeColour, FaceColour;
  juce::PathStrokeType edge_stroke_type{1.0f, mitered, rounded}; ... }\<close>, with the
  constructor \<^verbatim>\<open>Marker(const Marker::Type t) : type{t}\<close>. The field \<open>type\<close> is called
  \<open>marker_type\<close> here.
\<close>

record Marker =
  marker_type :: Type
  EdgeColour :: "Colour option"
  FaceColour :: "Colour option"
  edge_stroke_type :: PathStrokeType

definition Marker_ctor :: "Type \<Rightarrow> Marker" where
  "Marker_ctor t =
     \<lparr>marker_type = t, EdgeColour = None, FaceColour = None,
      edge_stroke_type = \<lparr>thickness = 1.0, joint_style = mitered, end_style = rounded\<rparr>\<rparr>"

text \<open>
  The lambda of \<open>getMarkerPathFrom\<close>,
  \<^verbatim>\<open>addUpTriangleTo = [length](auto& path) { path.addTriangle({0.0f, -length / 2.0f},
     {-length / 2.0f, length / 2.0f}, {length / 2.0f, length / 2.0f}); }\<close>.
  The parameter \<open>length\<close> is called \<open>len\<close>, since \<open>length\<close> is a constant of HOL.
\<close>

definition addUpTriangleTo :: "real \<Rightarrow> path \<Rightarrow> path" where
  "addUpTriangleTo len path =
     addTriangle (0, - len / 2) (- len / 2, len / 2) (len / 2, len / 2) path"

text \<open>
  \<^verbatim>\<open>static juce::Path getMarkerPathFrom(Marker marker, const float length)\<close>: a switch on
  \<open>marker.type\<close> over the seven enumerators, with an empty \<open>default\<close> branch, applied to
  a path that starts empty.
\<close>

definition getMarkerPathFrom :: "Marker \<Rightarrow> real \<Rightarrow> path" where
  "getMarkerPathFrom marker len =
     (let path = [] in
      if marker_type marker = Circle then
        addEllipse \<lparr>rect_x = - len / 2, rect_y = - len / 2, rect_w = len, rect_h = len\<rparr> path
      else if marker_type marker = Pentagram then
        addStar (0, 0) 5 (len / 4) (len / 2) 0 path
      else if marker_type marker = Square then
        addRectangle (- len / 2) (- len / 2) len len path
      else if marker_type marker = UpTriangle then
        addUpTriangleTo len path
      else if marker_type marker = RightTriangle then
        applyTransform (rotation (pi / 2) 0 0) (addUpTriangleTo len path)
      else if marker_type marker = DownTriangle then
        applyTransform (rotation pi 0 0) (addUpTriangleTo len path)
      else if marker_type marker = LeftTriangle then
        applyTransform (rotation (pi * 3 / 2) 0 0) (addUpTriangleTo len path)
      else path)"

section \<open>Notions the properties of the marker paths are stated with\<close>

text \<open>
  A rectangle lies within the interval from \<open>lo\<close> to \<open>hi\<close> on both axes.
\<close>

definition bounds_within :: "rectangle \<Rightarrow> real \<Rightarrow> real \<Rightarrow> bool" where
  "bounds_within r lo hi \<longleftrightarrow> lo \<le> rect_x r \<and> getRight r \<le> hi \<and> lo \<le> rect_y r \<and> getBottom r \<le> hi"

text \<open>
  The box of width and height \<open>len\<close> whose centre is the origin.
\<close>

definition centred_box :: "real \<Rightarrow> rectangle" where
  "centred_box len = \<lparr>rect_x = - len / 2, rect_y = - len / 2, rect_w = len, rect_h = len\<rparr>"

text \<open>
  The rotation of a path about the origin by an angle given in degrees, in the sense
  that takes the upward direction to the right (clockwise on the screen, where \<open>y\<close>
  grows downwards). This is the rotation the claim about the triangles speaks of,
  written without the toolkit's transforms.
\<close>

definition rotate_about_origin :: "real \<Rightarrow> path \<Rightarrow> path" where
  "rotate_about_origin deg path =
     (let rad = deg * pi / 180
      in map (map_points (\<lambda>p. (fst p * cos rad - snd p * sin rad, fst p * sin rad + snd p * cos rad)))
           path)"

text \<open>
  A path is an isosceles triangle of size \<open>sz\<close> with its apex at the top and its base at
  the bottom: a closed sub-path from the apex through the two ends of the base, the
  apex strictly higher on the screen than the base (smaller \<open>y\<close>), the base horizontal,
  the two legs equally long, and the width of the base and the height from base to
  apex both \<open>sz\<close>.
\<close>

definition is_up_triangle :: "path \<Rightarrow> real \<Rightarrow> bool" where
  "is_up_triangle path sz =
     (case path of
        [StartNewSubPath apex, LineTo b1, LineTo b2, CloseSubPath] \<Rightarrow>
          snd apex < snd b1 \<and> snd b1 = snd b2
          \<and> (fst b1 - fst apex)\<^sup>2 + (snd b1 - snd apex)\<^sup>2
              = (fst b2 - fst apex)\<^sup>2 + (snd b2 - snd apex)\<^sup>2
          \<and> \<bar>fst b2 - fst b1\<bar> = sz \<and> snd b1 - snd apex = sz
      | _ \<Rightarrow> False)"

section \<open>Properties of \<open>Lim\<close>\<close>

lemma Lim_update_both:
  "(l::'a Lim)\<lparr>min_lim := a, max_lim := b\<rparr> = \<lparr>min_lim = a, max_lim = b\<rparr>"
  by simp

text \<open>
  Claim C1. Dividing a \<open>Lim\<close> by a scalar divides both bounds. The member \<open>lim /= val\<close>
  does so: it leaves in \<open>lim\<close> the \<open>Lim\<close> whose \<open>min\<close> is \<open>lim.min / val\<close> and whose
  \<open>max\<close> is \<open>lim.max / val\<close> and returns the reference to it, so that
  \<open>Lim<float>(10,20)\<close> becomes \<open>Lim<float>(5,10)\<close> under \<open>/= 2\<close> (for a quotient with
  \<open>10 / 2 = 5\<close> and \<open>20 / 2 = 10\<close>, as the one of \<^verbatim>\<open>float\<close>). The free operator
  \<open>lim / val\<close> does not: for every \<open>lim\<close> and \<open>val\<close> it stops at the default construction
  of its local and yields no \<open>Lim\<close>, in particular not \<open>Lim<float>(5,10)\<close> for
  \<open>Lim<float>(10,20) / 2\<close>.
\<close>

theorem Lim_div_operator_has_no_result:
  fixes lim :: "'a Lim" and quotr :: "real \<Rightarrow> real \<Rightarrow> real" and sr :: "real store"
  shows "op_div quot lim val = Inl NoDefaultConstructor
       \<and> op_div quotr (Lim_ctor 10 20) 2 = Inl NoDefaultConstructor
       \<and> op_div quotr (Lim_ctor 10 20) 2 \<noteq> Inr (Lim_ctor 5 10)
       \<and> (s this = Some lim \<longrightarrow>
            op_div_assign quot s this val =
              Some (s(this \<mapsto> Lim_ctor (quot (min_lim lim) val) (quot (max_lim lim) val)), this))
       \<and> (quotr 10 2 = 5 \<and> quotr 20 2 = 10 \<and> sr this = Some (Lim_ctor 10 20) \<longrightarrow>
            op_div_assign quotr sr this 2 = Some (sr(this \<mapsto> Lim_ctor 5 10), this))"
  by (simp add: op_div_def Lim_default_ctor_def op_div_assign_def Lim_ctor_def Let_def
      Lim_update_both)

theorem Lim_div_operator_has_no_result_witness:
  "op_div (/) (Lim_ctor (10::real) 20) 2 = Inl NoDefaultConstructor
   \<and> (10::real) / 2 = 5 \<and> (20::real) / 2 = 10
   \<and> [0 \<mapsto> Lim_ctor (10::real) 20] (0::addr) = Some (Lim_ctor 10 20)
   \<and> op_div_assign (/) [0 \<mapsto> Lim_ctor (10::real) 20] 0 2 = Some ([0 \<mapsto> Lim_ctor 5 10], 0)"
  using Lim_div_operator_has_no_result [where quot = "(/)" and lim = "Lim_ctor (10::real) 20"
      and val = 2 and quotr = "(/)" and s = "[0 \<mapsto> Lim_ctor (10::real) 20]" and this = 0
      and sr = "[0 \<mapsto> Lim_ctor (10::real) 20]"]
  by (simp add: Lim_ctor_def)

text \<open>
  Claim C4. The conversion of a \<open>Lim\<close> to \<open>bool\<close> is false if and only if both \<open>min\<close>
  and \<open>max\<close> equal zero, and true otherwise; \<open>Lim<float>(0,0)\<close> converts to false and
  \<open>Lim<float>(0,5)\<close> to true.
\<close>

theorem Lim_bool_false_iff_both_zero:
  fixes lim :: "('a::zero) Lim"
  shows "(op_bool lim = False \<longleftrightarrow> min_lim lim = 0 \<and> max_lim lim = 0)
       \<and> (\<not> (min_lim lim = 0 \<and> max_lim lim = 0) \<longrightarrow> op_bool lim = True)
       \<and> op_bool (Lim_ctor (0::real) 0) = False
       \<and> op_bool (Lim_ctor (0::real) 5) = True"
  by (auto simp add: op_bool_def Lim_ctor_def Let_def)

theorem Lim_bool_false_iff_both_zero_witness:
  "(op_bool (Lim_ctor (0::int) 0) = False) \<and> op_bool (Lim_ctor (3::int) 0) = True
   \<and> op_bool (Lim_ctor (0::int) (-4)) = True \<and> op_bool (Lim_ctor (1::int) 2) = True"
  using Lim_bool_false_iff_both_zero [of "Lim_ctor (0::int) 0"]
    Lim_bool_false_iff_both_zero [of "Lim_ctor (3::int) 0"]
    Lim_bool_false_iff_both_zero [of "Lim_ctor (0::int) (-4)"]
    Lim_bool_false_iff_both_zero [of "Lim_ctor (1::int) 2"]
  by (simp add: Lim_ctor_def)

text \<open>
  Claim C5. \<open>isMinOrMaxZero\<close> is true if and only if at least one of \<open>min\<close> and \<open>max\<close>
  equals zero; it is true for \<open>Lim<float>(0,5)\<close> and false for \<open>Lim<float>(1,5)\<close>.
\<close>

theorem isMinOrMaxZero_iff_some_zero:
  fixes lim :: "('a::zero) Lim"
  shows "(isMinOrMaxZero lim = True \<longleftrightarrow> min_lim lim = 0 \<or> max_lim lim = 0)
       \<and> isMinOrMaxZero (Lim_ctor (0::real) 5) = True
       \<and> isMinOrMaxZero (Lim_ctor (1::real) 5) = False"
  by (auto simp add: isMinOrMaxZero_def Lim_ctor_def Let_def)

theorem isMinOrMaxZero_iff_some_zero_witness:
  "isMinOrMaxZero (Lim_ctor (0::int) 0) = True \<and> isMinOrMaxZero (Lim_ctor (3::int) 0) = True
   \<and> isMinOrMaxZero (Lim_ctor (0::int) (-4)) = True \<and> isMinOrMaxZero (Lim_ctor (1::int) 2) = False"
  using isMinOrMaxZero_iff_some_zero [of "Lim_ctor (0::int) 0"]
    isMinOrMaxZero_iff_some_zero [of "Lim_ctor (3::int) 0"]
    isMinOrMaxZero_iff_some_zero [of "Lim_ctor (0::int) (-4)"]
    isMinOrMaxZero_iff_some_zero [of "Lim_ctor (1::int) 2"]
  by (simp add: Lim_ctor_def)

text \<open>
  Claim C9, as stated for every \<open>lhs\<close> and \<open>rhs\<close>, fails where a field of \<open>rhs\<close> does not
  compare equal to itself: after \<open>lhs = rhs\<close> with \<open>rhs = Lim<float>(NaN, 1)\<close> the object
  \<open>lhs\<close> holds the fields of \<open>rhs\<close>, and \<open>lhs == rhs\<close> is false.
\<close>

theorem Lim_assign_nan_counterexample:
  "op_assign [0 \<mapsto> Lim_ctor (Finite 0) (Finite 0)] 0 (Lim_ctor NaN (Finite 1))
     = Some ([0 \<mapsto> Lim_ctor NaN (Finite 1)], 0)
   \<and> \<not> op_eq float_eq (Lim_ctor NaN (Finite 1)) (Lim_ctor NaN (Finite 1))"
  by (simp add: op_assign_def op_eq_def Lim_ctor_def Let_def)

text \<open>
  Claim C9, amended. \<open>Lim::operator=\<close> is the default copy assignment and nothing more:
  on every store, object address and right-hand side it has the result of
  \<open>default_copy_assign\<close>; after \<open>lhs = rhs\<close> the fields of \<open>lhs\<close> are those of \<open>rhs\<close>, so
  that \<open>lhs == rhs\<close> holds whenever each field of \<open>rhs\<close> compares equal to itself (no
  field is a NaN); the reference returned designates \<open>lhs\<close>; no other object of the
  store changes, and every object that held the value \<open>rhs\<close> before the call (the
  caller's \<open>rhs\<close>, also when it is \<open>lhs\<close> itself) holds it afterwards.
\<close>

theorem Lim_assign_is_copy_assign:
  "op_assign s this rhs = default_copy_assign s this rhs
   \<and> (s this = Some lhs \<longrightarrow>
        (\<exists>s' lhs'. op_assign s this rhs = Some (s', this)
           \<and> s' this = Some lhs' \<and> min_lim lhs' = min_lim rhs \<and> max_lim lhs' = max_lim rhs
           \<and> (eq (min_lim rhs) (min_lim rhs) \<and> eq (max_lim rhs) (max_lim rhs) \<longrightarrow>
                op_eq eq lhs' rhs)
           \<and> (\<forall>a. a \<noteq> this \<longrightarrow> s' a = s a)
           \<and> (\<forall>b. s b = Some rhs \<longrightarrow> s' b = Some rhs)))"
  by (auto simp add: op_assign_def default_copy_assign_def op_eq_def Let_def split: option.splits)

theorem Lim_assign_is_copy_assign_witness:
  "[0 \<mapsto> Lim_ctor (Finite 1) (Finite 2), 1 \<mapsto> Lim_ctor (Finite 3) (Finite 4)] (0::addr)
     = Some (Lim_ctor (Finite 1) (Finite 2))
   \<and> float_eq (Finite 3) (Finite 3) \<and> float_eq (Finite 4) (Finite 4)
   \<and> op_assign [0 \<mapsto> Lim_ctor (Finite 1) (Finite 2), 1 \<mapsto> Lim_ctor (Finite 3) (Finite 4)] 0
         (Lim_ctor (Finite 3) (Finite 4))
       = Some ([0 \<mapsto> Lim_ctor (Finite 3) (Finite 4), 1 \<mapsto> Lim_ctor (Finite 3) (Finite 4)], 0)
   \<and> op_eq float_eq (Lim_ctor (Finite 3) (Finite 4)) (Lim_ctor (Finite 3) (Finite 4))"
  using Lim_assign_is_copy_assign [where
      s = "[0 \<mapsto> Lim_ctor (Finite 1) (Finite 2), 1 \<mapsto> Lim_ctor (Finite 3) (Finite 4)]"
      and this = 0 and rhs = "Lim_ctor (Finite 3) (Finite 4)"
      and lhs = "Lim_ctor (Finite 1) (Finite 2)" and eq = float_eq]
  by (simp add: Lim_ctor_def op_assign_def default_copy_assign_def op_eq_def Let_def fun_upd_twist)

section \<open>Properties of \<open>iota_delta\<close>\<close>














section \<open>The paths of the seven markers\<close>

lemma addUpTriangleTo_empty:
  "addUpTriangleTo len [] =
     [StartNewSubPath (0, - len / 2), LineTo (- len / 2, len / 2), LineTo (len / 2, len / 2),
      CloseSubPath]"
  by (simp add: addUpTriangleTo_def addTriangle_def closeSubPath_def lineTo_def startNewSubPath_def)

lemma addRectangle_empty:
  "0 \<le> len \<Longrightarrow> addRectangle (- len / 2) (- len / 2) len len [] =
     [StartNewSubPath (- len / 2, len / 2), LineTo (- len / 2, - len / 2),
      LineTo (len / 2, - len / 2), LineTo (len / 2, len / 2), CloseSubPath]"
  by (simp add: addRectangle_def closeSubPath_def lineTo_def startNewSubPath_def Let_def)

lemma addEllipse_empty:
  "addEllipse \<lparr>rect_x = - len / 2, rect_y = - len / 2, rect_w = len, rect_h = len\<rparr> [] =
     [StartNewSubPath (0, - len / 2),
      CubicTo (len * 0.275, - len / 2) (len / 2, - (len * 0.275)) (len / 2, 0),
      CubicTo (len / 2, len * 0.275) (len * 0.275, len / 2) (0, len / 2),
      CubicTo (- (len * 0.275), len / 2) (- len / 2, len * 0.275) (- len / 2, 0),
      CubicTo (- len / 2, - (len * 0.275)) (- (len * 0.275), - len / 2) (0, - len / 2),
      CloseSubPath]"
  by (simp add: addEllipse_def closeSubPath_def cubicTo_def startNewSubPath_def Let_def)

lemma upt_5: "[0 ..< 5] = [0, 1, 2, 3, 4::nat]"
  by (simp add: upt_rec)

lemma addStar_empty:
  "addStar (0, 0) 5 ri ro 0 [] =
     [StartNewSubPath (getPointOnCircumference (0, 0) ro 0),
      LineTo (getPointOnCircumference (0, 0) ri (pi / 5)),
      LineTo (getPointOnCircumference (0, 0) ro (2 * pi / 5)),
      LineTo (getPointOnCircumference (0, 0) ri (3 * pi / 5)),
      LineTo (getPointOnCircumference (0, 0) ro (4 * pi / 5)),
      LineTo (getPointOnCircumference (0, 0) ri (5 * pi / 5)),
      LineTo (getPointOnCircumference (0, 0) ro (6 * pi / 5)),
      LineTo (getPointOnCircumference (0, 0) ri (7 * pi / 5)),
      LineTo (getPointOnCircumference (0, 0) ro (8 * pi / 5)),
      LineTo (getPointOnCircumference (0, 0) ri (9 * pi / 5)),
      CloseSubPath]"
  by (simp add: addStar_def upt_5 star_point_def closeSubPath_def lineTo_def startNewSubPath_def Let_def)

lemma transform_rotation_origin:
  "transformPoint (rotation rad 0 0) (x, y) = (x * cos rad - y * sin rad, x * sin rad + y * cos rad)"
  by (simp add: transformPoint_def rotation_def Let_def algebra_simps)

lemma sin_cos_3_pi_half: "sin (pi * 3 / 2) = - 1" "cos (pi * 3 / 2) = 0"
  using sin_3over2_pi cos_3over2_pi by (simp_all add: mult.commute)

lemma rotate_90: "transformPoint (rotation (pi / 2) 0 0) (x, y) = (- y, x)"
  by (simp add: transform_rotation_origin)

lemma rotate_180: "transformPoint (rotation pi 0 0) (x, y) = (- x, - y)"
  by (simp add: transform_rotation_origin)

lemma rotate_270: "transformPoint (rotation (pi * 3 / 2) 0 0) (x, y) = (y, - x)"
  by (simp add: transform_rotation_origin sin_cos_3_pi_half)

lemma right_triangle_path:
  "applyTransform (rotation (pi / 2) 0 0) (addUpTriangleTo len []) =
     [StartNewSubPath (len / 2, 0), LineTo (- len / 2, - len / 2), LineTo (- len / 2, len / 2),
      CloseSubPath]"
  by (simp add: addUpTriangleTo_empty applyTransform_def rotate_90)

lemma down_triangle_path:
  "applyTransform (rotation pi 0 0) (addUpTriangleTo len []) =
     [StartNewSubPath (0, len / 2), LineTo (len / 2, - len / 2), LineTo (- len / 2, - len / 2),
      CloseSubPath]"
  by (simp add: addUpTriangleTo_empty applyTransform_def rotate_180)

lemma left_triangle_path:
  "applyTransform (rotation (pi * 3 / 2) 0 0) (addUpTriangleTo len []) =
     [StartNewSubPath (- len / 2, 0), LineTo (len / 2, len / 2), LineTo (len / 2, - len / 2),
      CloseSubPath]"
  by (simp add: addUpTriangleTo_empty applyTransform_def rotate_270)

lemma getBounds_up: "0 < len \<Longrightarrow> getBounds (addUpTriangleTo len []) = centred_box len"
  by (simp add: addUpTriangleTo_empty getBounds_def path_points_def centred_box_def Let_def min_def max_def)

lemma getBounds_right:
  "0 < len \<Longrightarrow> getBounds (applyTransform (rotation (pi / 2) 0 0) (addUpTriangleTo len [])) = centred_box len"
  by (simp add: right_triangle_path getBounds_def path_points_def centred_box_def Let_def min_def max_def)

lemma getBounds_down:
  "0 < len \<Longrightarrow> getBounds (applyTransform (rotation pi 0 0) (addUpTriangleTo len [])) = centred_box len"
  by (simp add: down_triangle_path getBounds_def path_points_def centred_box_def Let_def min_def max_def)

lemma getBounds_left:
  "0 < len \<Longrightarrow> getBounds (applyTransform (rotation (pi * 3 / 2) 0 0) (addUpTriangleTo len [])) = centred_box len"
  by (simp add: left_triangle_path getBounds_def path_points_def centred_box_def Let_def min_def max_def)

lemma getBounds_square:
  "0 < len \<Longrightarrow> getBounds (addRectangle (- len / 2) (- len / 2) len len []) = centred_box len"
  by (subst addRectangle_empty) (simp_all add: getBounds_def path_points_def centred_box_def Let_def min_def max_def)

lemma getBounds_circle:
  "0 < len \<Longrightarrow> getBounds (addEllipse (centred_box len) []) = centred_box len"
  unfolding centred_box_def
  by (subst addEllipse_empty) (simp add: getBounds_def path_points_def Let_def min_def max_def)

lemma bounds_within_box: "bounds_within (centred_box len) (- len / 2) (len / 2)"
  by (simp add: bounds_within_def centred_box_def getRight_def getBottom_def)

lemma fold_min_ge: "lo \<le> a \<Longrightarrow> \<forall>x \<in> set xs. lo \<le> x \<Longrightarrow> lo \<le> fold min xs (a::real)"
  by (induction xs arbitrary: a) auto

lemma fold_max_le: "a \<le> hi \<Longrightarrow> \<forall>x \<in> set xs. x \<le> hi \<Longrightarrow> fold max xs (a::real) \<le> hi"
  by (induction xs arbitrary: a) auto

lemma getBounds_within:
  assumes "path_points p \<noteq> []"
    and "\<forall>q \<in> set (path_points p). lo \<le> fst q \<and> fst q \<le> hi \<and> lo \<le> snd q \<and> snd q \<le> hi"
  shows "bounds_within (getBounds p) lo hi"
proof -
  from assms(1) obtain q qs where qs: "path_points p = q # qs" by (cases "path_points p") auto
  with assms(2) have q: "lo \<le> fst q" "fst q \<le> hi" "lo \<le> snd q" "snd q \<le> hi"
    and rest: "\<forall>r \<in> set qs. lo \<le> fst r \<and> fst r \<le> hi \<and> lo \<le> snd r \<and> snd r \<le> hi" by auto
  have "lo \<le> fold min (map fst qs) (fst q)" using q rest by (intro fold_min_ge) auto
  moreover have "fold max (map fst qs) (fst q) \<le> hi" using q rest by (intro fold_max_le) auto
  moreover have "lo \<le> fold min (map snd qs) (snd q)" using q rest by (intro fold_min_ge) auto
  moreover have "fold max (map snd qs) (snd q) \<le> hi" using q rest by (intro fold_max_le) auto
  ultimately show ?thesis
    by (simp add: getBounds_def qs bounds_within_def getRight_def getBottom_def Let_def)
qed

lemma circumference_within:
  assumes "\<bar>r\<bar> \<le> h"
  shows "- h \<le> fst (getPointOnCircumference (0, 0) r a) \<and> fst (getPointOnCircumference (0, 0) r a) \<le> h
       \<and> - h \<le> snd (getPointOnCircumference (0, 0) r a) \<and> snd (getPointOnCircumference (0, 0) r a) \<le> h"
proof -
  have "\<bar>r * sin a\<bar> \<le> \<bar>r\<bar> * 1" unfolding abs_mult by (intro mult_left_mono) auto
  moreover have "\<bar>r * cos a\<bar> \<le> \<bar>r\<bar> * 1" unfolding abs_mult by (intro mult_left_mono) auto
  ultimately show ?thesis using assms unfolding getPointOnCircumference_def by simp linarith
qed

lemma getBounds_star:
  assumes "0 < len"
  shows "bounds_within (getBounds (addStar (0, 0) 5 (len / 4) (len / 2) 0 [])) (- len / 2) (len / 2)"
proof -
  have o: "\<bar>len / 2\<bar> \<le> len / 2" and i: "\<bar>len / 4\<bar> \<le> len / 2" using assms by simp_all
  show ?thesis
    using circumference_within [OF o] circumference_within [OF i]
    by (intro getBounds_within) (simp_all add: addStar_empty path_points_def)
qed

lemma circumference_distance:
  "getDistanceFromOrigin (getPointOnCircumference (0, 0) r a) = \<bar>r\<bar>"
proof -
  have "r * sin a * (r * sin a) + r * cos a * (r * cos a) = r * r * (sin a * sin a + cos a * cos a)"
    by (simp only: distrib_left mult.assoc mult.left_commute)
  also have "\<dots> = r * r"
    using sin_cos_squared_add [of a] by (simp add: power2_eq_square)
  finally have "getDistanceFromOrigin (getPointOnCircumference (0, 0) r a) = sqrt (r * r)"
    by (simp add: getDistanceFromOrigin_def getPointOnCircumference_def)
  then show ?thesis by simp
qed

lemmas enumerator_defs =
  Circle_def Pentagram_def Square_def UpTriangle_def RightTriangle_def DownTriangle_def
  LeftTriangle_def

lemma getMarkerPathFrom_Circle:
  "marker_type marker = Circle \<Longrightarrow>
     getMarkerPathFrom marker len = addEllipse (centred_box len) []"
  by (simp add: getMarkerPathFrom_def centred_box_def)

lemma getMarkerPathFrom_Pentagram:
  "marker_type marker = Pentagram \<Longrightarrow>
     getMarkerPathFrom marker len = addStar (0, 0) 5 (len / 4) (len / 2) 0 []"
  by (simp add: getMarkerPathFrom_def enumerator_defs)

lemma getMarkerPathFrom_Square:
  "marker_type marker = Square \<Longrightarrow>
     getMarkerPathFrom marker len = addRectangle (- len / 2) (- len / 2) len len []"
  by (simp add: getMarkerPathFrom_def enumerator_defs)

lemma getMarkerPathFrom_UpTriangle:
  "marker_type marker = UpTriangle \<Longrightarrow> getMarkerPathFrom marker len = addUpTriangleTo len []"
  by (simp add: getMarkerPathFrom_def enumerator_defs)

lemma getMarkerPathFrom_RightTriangle:
  "marker_type marker = RightTriangle \<Longrightarrow>
     getMarkerPathFrom marker len = applyTransform (rotation (pi / 2) 0 0) (addUpTriangleTo len [])"
  by (simp add: getMarkerPathFrom_def enumerator_defs)

lemma getMarkerPathFrom_DownTriangle:
  "marker_type marker = DownTriangle \<Longrightarrow>
     getMarkerPathFrom marker len = applyTransform (rotation pi 0 0) (addUpTriangleTo len [])"
  by (simp add: getMarkerPathFrom_def enumerator_defs)

lemma getMarkerPathFrom_LeftTriangle:
  "marker_type marker = LeftTriangle \<Longrightarrow>
     getMarkerPathFrom marker len = applyTransform (rotation (pi * 3 / 2) 0 0) (addUpTriangleTo len [])"
  by (simp add: getMarkerPathFrom_def enumerator_defs)

lemma getMarkerPathFrom_default:
  "marker_type marker \<notin> recognized_types \<Longrightarrow> getMarkerPathFrom marker len = []"
  by (simp add: getMarkerPathFrom_def recognized_types_def)

lemma rotate_about_origin_eq:
  "rotate_about_origin deg path = applyTransform (rotation (deg * pi / 180) 0 0) path"
proof -
  have "(\<lambda>p. (fst p * cos rad - snd p * sin rad, fst p * sin rad + snd p * cos rad))
          = transformPoint (rotation rad 0 0)" for rad
    by (rule ext) (simp add: transformPoint_def rotation_def Let_def)
  then show ?thesis
    by (simp add: rotate_about_origin_def applyTransform_def Let_def)
qed

lemma is_up_triangle_up: "0 < len \<Longrightarrow> is_up_triangle (addUpTriangleTo len []) len"
  by (simp add: addUpTriangleTo_empty is_up_triangle_def power2_eq_square)

lemma star_distances:
  assumes "0 < len"
  shows "map getDistanceFromOrigin (path_points (addStar (0, 0) 5 (len / 4) (len / 2) 0 [])) =
     [len / 2, len / 4, len / 2, len / 4, len / 2, len / 4, len / 2, len / 4, len / 2, len / 4]"
  using assms by (simp add: addStar_empty path_points_def circumference_distance)

section \<open>Properties of the marker geometry builder\<close>

text \<open>
  Claim C2. For each of the seven enumerators and every positive length,
  \<open>getMarkerPathFrom\<close> returns a path that is not empty and whose bounding box lies
  within \<open>[-length/2, length/2]\<close> on both axes; for \<open>Circle\<close> and \<open>Square\<close> the bounding
  box is exactly the box of that size about the origin. With exact arithmetic the
  containment holds without a tolerance for the rotated triangles as well.
\<close>

theorem marker_path_nonempty_within_bounds:
  assumes "0 < len" and "marker_type marker \<in> recognized_types"
  shows "\<not> isEmpty (getMarkerPathFrom marker len)
       \<and> bounds_within (getBounds (getMarkerPathFrom marker len)) (- len / 2) (len / 2)
       \<and> (marker_type marker = Circle \<or> marker_type marker = Square \<longrightarrow>
            getBounds (getMarkerPathFrom marker len) = centred_box len)"
proof -
  let ?P = "getMarkerPathFrom marker len"
  have exact: "\<not> isEmpty ?P \<and> bounds_within (getBounds ?P) (- len / 2) (len / 2)"
    if "\<not> isEmpty ?P" and "getBounds ?P = centred_box len"
    using that bounds_within_box by simp
  from assms(2) consider
      "marker_type marker = Circle" | "marker_type marker = Pentagram"
    | "marker_type marker = Square" | "marker_type marker = UpTriangle"
    | "marker_type marker = RightTriangle" | "marker_type marker = DownTriangle"
    | "marker_type marker = LeftTriangle"
    by (auto simp add: recognized_types_def)
  then show ?thesis
  proof cases
    case 1
    have "\<not> isEmpty ?P"
      unfolding getMarkerPathFrom_Circle [OF 1] centred_box_def
      by (subst addEllipse_empty) (simp add: isEmpty_def)
    moreover have "getBounds ?P = centred_box len"
      using assms(1) by (simp add: getMarkerPathFrom_Circle [OF 1] getBounds_circle)
    ultimately show ?thesis using exact by simp
  next
    case 2
    have "\<not> isEmpty ?P"
      by (simp add: getMarkerPathFrom_Pentagram [OF 2] addStar_empty isEmpty_def)
    moreover have "bounds_within (getBounds ?P) (- len / 2) (len / 2)"
      using assms(1) by (simp only: getMarkerPathFrom_Pentagram [OF 2] getBounds_star)
    ultimately show ?thesis using 2 by (simp add: enumerator_defs)
  next
    case 3
    have "\<not> isEmpty ?P"
      unfolding getMarkerPathFrom_Square [OF 3] using assms(1)
      by (subst addRectangle_empty) (simp_all add: isEmpty_def)
    moreover have "getBounds ?P = centred_box len"
      using assms(1) by (simp only: getMarkerPathFrom_Square [OF 3] getBounds_square)
    ultimately show ?thesis using exact by simp
  next
    case 4
    have "\<not> isEmpty ?P"
      by (simp add: getMarkerPathFrom_UpTriangle [OF 4] addUpTriangleTo_empty isEmpty_def)
    moreover have "getBounds ?P = centred_box len"
      using assms(1) by (simp only: getMarkerPathFrom_UpTriangle [OF 4] getBounds_up)
    ultimately show ?thesis using exact by simp
  next
    case 5
    have "\<not> isEmpty ?P"
      by (simp add: getMarkerPathFrom_RightTriangle [OF 5] right_triangle_path isEmpty_def)
    moreover have "getBounds ?P = centred_box len"
      using assms(1) by (simp only: getMarkerPathFrom_RightTriangle [OF 5] getBounds_right)
    ultimately show ?thesis using exact by simp
  next
    case 6
    have "\<not> isEmpty ?P"
      by (simp add: getMarkerPathFrom_DownTriangle [OF 6] down_triangle_path isEmpty_def)
    moreover have "getBounds ?P = centred_box len"
      using assms(1) by (simp only: getMarkerPathFrom_DownTriangle [OF 6] getBounds_down)
    ultimately show ?thesis using exact by simp
  next
    case 7
    have "\<not> isEmpty ?P"
      by (simp add: getMarkerPathFrom_LeftTriangle [OF 7] left_triangle_path isEmpty_def)
    moreover have "getBounds ?P = centred_box len"
      using assms(1) by (simp only: getMarkerPathFrom_LeftTriangle [OF 7] getBounds_left)
    ultimately show ?thesis using exact by simp
  qed
qed

theorem marker_path_nonempty_within_bounds_witness:
  "0 < (2::real)
   \<and> marker_type (Marker_ctor Circle) \<in> recognized_types
   \<and> marker_type (Marker_ctor Pentagram) \<in> recognized_types
   \<and> marker_type (Marker_ctor LeftTriangle) \<in> recognized_types
   \<and> \<not> isEmpty (getMarkerPathFrom (Marker_ctor Circle) 2)
   \<and> getBounds (getMarkerPathFrom (Marker_ctor Circle) 2)
       = \<lparr>rect_x = - 1, rect_y = - 1, rect_w = 2, rect_h = 2\<rparr>
   \<and> \<not> isEmpty (getMarkerPathFrom (Marker_ctor Pentagram) 2)
   \<and> bounds_within (getBounds (getMarkerPathFrom (Marker_ctor Pentagram) 2)) (- 1) 1
   \<and> \<not> isEmpty (getMarkerPathFrom (Marker_ctor LeftTriangle) 2)
   \<and> bounds_within (getBounds (getMarkerPathFrom (Marker_ctor LeftTriangle) 2)) (- 1) 1"
  using marker_path_nonempty_within_bounds [of 2 "Marker_ctor Circle"]
    marker_path_nonempty_within_bounds [of 2 "Marker_ctor Pentagram"]
    marker_path_nonempty_within_bounds [of 2 "Marker_ctor LeftTriangle"]
  by (simp add: Marker_ctor_def recognized_types_def centred_box_def)

text \<open>
  Claim C3. For every length, the paths returned for \<open>RightTriangle\<close>, \<open>DownTriangle\<close>
  and \<open>LeftTriangle\<close> are the path returned for \<open>UpTriangle\<close> with the same length,
  rotated about the origin by 90, 180 and 270 degrees. With exact arithmetic the paths
  are equal, so they agree within every tolerance.
\<close>

theorem triangles_are_rotated_up_triangle:
  assumes "marker_type m_up = UpTriangle" and "marker_type m_right = RightTriangle"
    and "marker_type m_down = DownTriangle" and "marker_type m_left = LeftTriangle"
  shows "getMarkerPathFrom m_right len = rotate_about_origin 90 (getMarkerPathFrom m_up len)
       \<and> getMarkerPathFrom m_down len = rotate_about_origin 180 (getMarkerPathFrom m_up len)
       \<and> getMarkerPathFrom m_left len = rotate_about_origin 270 (getMarkerPathFrom m_up len)"
proof -
  have "(90::real) * pi / 180 = pi / 2" "(180::real) * pi / 180 = pi"
    "(270::real) * pi / 180 = pi * 3 / 2" by simp_all
  then show ?thesis
    by (simp only: rotate_about_origin_eq getMarkerPathFrom_UpTriangle [OF assms(1)]
        getMarkerPathFrom_RightTriangle [OF assms(2)] getMarkerPathFrom_DownTriangle [OF assms(3)]
        getMarkerPathFrom_LeftTriangle [OF assms(4)] simp_thms)
qed

theorem triangles_are_rotated_up_triangle_witness:
  "marker_type (Marker_ctor UpTriangle) = UpTriangle
   \<and> marker_type (Marker_ctor RightTriangle) = RightTriangle
   \<and> marker_type (Marker_ctor DownTriangle) = DownTriangle
   \<and> marker_type (Marker_ctor LeftTriangle) = LeftTriangle
   \<and> getMarkerPathFrom (Marker_ctor RightTriangle) 2
       = rotate_about_origin 90 (getMarkerPathFrom (Marker_ctor UpTriangle) 2)
   \<and> getMarkerPathFrom (Marker_ctor DownTriangle) 2
       = rotate_about_origin 180 (getMarkerPathFrom (Marker_ctor UpTriangle) 2)
   \<and> getMarkerPathFrom (Marker_ctor LeftTriangle) 2
       = rotate_about_origin 270 (getMarkerPathFrom (Marker_ctor UpTriangle) 2)
   \<and> getMarkerPathFrom (Marker_ctor UpTriangle) 2
       = [StartNewSubPath (0, - 1), LineTo (- 1, 1), LineTo (1, 1), CloseSubPath]
   \<and> getMarkerPathFrom (Marker_ctor RightTriangle) 2
       = [StartNewSubPath (1, 0), LineTo (- 1, - 1), LineTo (- 1, 1), CloseSubPath]
   \<and> getMarkerPathFrom (Marker_ctor DownTriangle) 2
       = [StartNewSubPath (0, 1), LineTo (1, - 1), LineTo (- 1, - 1), CloseSubPath]
   \<and> getMarkerPathFrom (Marker_ctor LeftTriangle) 2
       = [StartNewSubPath (- 1, 0), LineTo (1, 1), LineTo (1, - 1), CloseSubPath]"
proof -
  have u: "marker_type (Marker_ctor UpTriangle) = UpTriangle"
    and r: "marker_type (Marker_ctor RightTriangle) = RightTriangle"
    and d: "marker_type (Marker_ctor DownTriangle) = DownTriangle"
    and l: "marker_type (Marker_ctor LeftTriangle) = LeftTriangle"
    by (simp_all add: Marker_ctor_def)
  note rot = triangles_are_rotated_up_triangle [OF u r d l, of 2]
  have "getMarkerPathFrom (Marker_ctor UpTriangle) 2
          = [StartNewSubPath (0, - 1), LineTo (- 1, 1), LineTo (1, 1), CloseSubPath]"
    by (simp add: getMarkerPathFrom_UpTriangle [OF u] addUpTriangleTo_empty)
  moreover have "getMarkerPathFrom (Marker_ctor RightTriangle) 2
          = [StartNewSubPath (1, 0), LineTo (- 1, - 1), LineTo (- 1, 1), CloseSubPath]"
    by (simp add: getMarkerPathFrom_RightTriangle [OF r] right_triangle_path)
  moreover have "getMarkerPathFrom (Marker_ctor DownTriangle) 2
          = [StartNewSubPath (0, 1), LineTo (1, - 1), LineTo (- 1, - 1), CloseSubPath]"
    by (simp add: getMarkerPathFrom_DownTriangle [OF d] down_triangle_path)
  moreover have "getMarkerPathFrom (Marker_ctor LeftTriangle) 2
          = [StartNewSubPath (- 1, 0), LineTo (1, 1), LineTo (1, - 1), CloseSubPath]"
    by (simp add: getMarkerPathFrom_LeftTriangle [OF l] left_triangle_path)
  ultimately show ?thesis using u r d l rot by blast
qed

text \<open>
  Claim C6, as stated for every size, fails for a size that is not positive: for the
  size \<open>-2\<close> the path returned for \<open>UpTriangle\<close> has its apex at \<open>(0, 1)\<close>, below its
  base at \<open>y = -1\<close>, and its width and height are \<open>2\<close>, not the size.
\<close>

theorem up_triangle_negative_size_counterexample:
  "\<not> is_up_triangle (getMarkerPathFrom (Marker_ctor UpTriangle) (- 2)) (- 2)"
  by (simp add: getMarkerPathFrom_UpTriangle Marker_ctor_def addUpTriangleTo_empty is_up_triangle_def)

text \<open>
  Claim C6, amended. For every positive size each shape is built about the origin with
  the size as its bounding dimension: the path for \<open>Circle\<close> is the ellipse inscribed in
  the \<open>size \<times> size\<close> box about the origin (four curves through the middles of the
  edges of that box, which is its bounding box); the path for \<open>Pentagram\<close> is a star
  about the origin with five tips at distance \<open>size/2\<close> and five inner corners at
  distance \<open>size/4\<close>, alternating, a fifth of a turn between two tips; the path for
  \<open>Square\<close> goes through the four corners of the \<open>size \<times> size\<close> box about the origin;
  the path for \<open>UpTriangle\<close> is an isosceles triangle with its apex at the top and its
  base at the bottom, of height and width \<open>size\<close>, with that box as its bounding box.
\<close>

theorem marker_shapes_for_positive_size:
  assumes "0 < len"
    and "marker_type m_circle = Circle" and "marker_type m_pentagram = Pentagram"
    and "marker_type m_square = Square" and "marker_type m_up = UpTriangle"
  shows "getMarkerPathFrom m_circle len =
           [StartNewSubPath (0, - len / 2),
            CubicTo (len * 0.275, - len / 2) (len / 2, - (len * 0.275)) (len / 2, 0),
            CubicTo (len / 2, len * 0.275) (len * 0.275, len / 2) (0, len / 2),
            CubicTo (- (len * 0.275), len / 2) (- len / 2, len * 0.275) (- len / 2, 0),
            CubicTo (- len / 2, - (len * 0.275)) (- (len * 0.275), - len / 2) (0, - len / 2),
            CloseSubPath]
       \<and> getBounds (getMarkerPathFrom m_circle len) = centred_box len
       \<and> getMarkerPathFrom m_pentagram len =
           [StartNewSubPath (getPointOnCircumference (0, 0) (len / 2) 0),
            LineTo (getPointOnCircumference (0, 0) (len / 4) (pi / 5)),
            LineTo (getPointOnCircumference (0, 0) (len / 2) (2 * pi / 5)),
            LineTo (getPointOnCircumference (0, 0) (len / 4) (3 * pi / 5)),
            LineTo (getPointOnCircumference (0, 0) (len / 2) (4 * pi / 5)),
            LineTo (getPointOnCircumference (0, 0) (len / 4) pi),
            LineTo (getPointOnCircumference (0, 0) (len / 2) (6 * pi / 5)),
            LineTo (getPointOnCircumference (0, 0) (len / 4) (7 * pi / 5)),
            LineTo (getPointOnCircumference (0, 0) (len / 2) (8 * pi / 5)),
            LineTo (getPointOnCircumference (0, 0) (len / 4) (9 * pi / 5)),
            CloseSubPath]
       \<and> map getDistanceFromOrigin (path_points (getMarkerPathFrom m_pentagram len)) =
           [len / 2, len / 4, len / 2, len / 4, len / 2, len / 4, len / 2, len / 4, len / 2,
            len / 4]
       \<and> getMarkerPathFrom m_square len =
           [StartNewSubPath (- len / 2, len / 2), LineTo (- len / 2, - len / 2),
            LineTo (len / 2, - len / 2), LineTo (len / 2, len / 2), CloseSubPath]
       \<and> getBounds (getMarkerPathFrom m_square len) = centred_box len
       \<and> is_up_triangle (getMarkerPathFrom m_up len) len
       \<and> getBounds (getMarkerPathFrom m_up len) = centred_box len
       \<and> getCentre (centred_box len) = (0, 0)
       \<and> rect_w (centred_box len) = len \<and> rect_h (centred_box len) = len"
proof (intro conjI)
  show "getMarkerPathFrom m_circle len =
           [StartNewSubPath (0, - len / 2),
            CubicTo (len * 0.275, - len / 2) (len / 2, - (len * 0.275)) (len / 2, 0),
            CubicTo (len / 2, len * 0.275) (len * 0.275, len / 2) (0, len / 2),
            CubicTo (- (len * 0.275), len / 2) (- len / 2, len * 0.275) (- len / 2, 0),
            CubicTo (- len / 2, - (len * 0.275)) (- (len * 0.275), - len / 2) (0, - len / 2),
            CloseSubPath]"
    unfolding getMarkerPathFrom_Circle [OF assms(2)] centred_box_def by (rule addEllipse_empty)
  show "getBounds (getMarkerPathFrom m_circle len) = centred_box len"
    using assms(1) by (simp only: getMarkerPathFrom_Circle [OF assms(2)] getBounds_circle)
  show "getMarkerPathFrom m_pentagram len =
           [StartNewSubPath (getPointOnCircumference (0, 0) (len / 2) 0),
            LineTo (getPointOnCircumference (0, 0) (len / 4) (pi / 5)),
            LineTo (getPointOnCircumference (0, 0) (len / 2) (2 * pi / 5)),
            LineTo (getPointOnCircumference (0, 0) (len / 4) (3 * pi / 5)),
            LineTo (getPointOnCircumference (0, 0) (len / 2) (4 * pi / 5)),
            LineTo (getPointOnCircumference (0, 0) (len / 4) pi),
            LineTo (getPointOnCircumference (0, 0) (len / 2) (6 * pi / 5)),
            LineTo (getPointOnCircumference (0, 0) (len / 4) (7 * pi / 5)),
            LineTo (getPointOnCircumference (0, 0) (len / 2) (8 * pi / 5)),
            LineTo (getPointOnCircumference (0, 0) (len / 4) (9 * pi / 5)),
            CloseSubPath]"
    unfolding getMarkerPathFrom_Pentagram [OF assms(3)] by (simp add: addStar_empty)
  show "map getDistanceFromOrigin (path_points (getMarkerPathFrom m_pentagram len)) =
           [len / 2, len / 4, len / 2, len / 4, len / 2, len / 4, len / 2, len / 4, len / 2,
            len / 4]"
    using assms(1) by (simp only: getMarkerPathFrom_Pentagram [OF assms(3)] star_distances)
  show "getMarkerPathFrom m_square len =
           [StartNewSubPath (- len / 2, len / 2), LineTo (- len / 2, - len / 2),
            LineTo (len / 2, - len / 2), LineTo (len / 2, len / 2), CloseSubPath]"
    unfolding getMarkerPathFrom_Square [OF assms(4)] using assms(1)
    by (intro addRectangle_empty) simp
  show "getBounds (getMarkerPathFrom m_square len) = centred_box len"
    using assms(1) by (simp only: getMarkerPathFrom_Square [OF assms(4)] getBounds_square)
  show "is_up_triangle (getMarkerPathFrom m_up len) len"
    using assms(1) by (simp only: getMarkerPathFrom_UpTriangle [OF assms(5)] is_up_triangle_up)
  show "getBounds (getMarkerPathFrom m_up len) = centred_box len"
    using assms(1) by (simp only: getMarkerPathFrom_UpTriangle [OF assms(5)] getBounds_up)
  show "getCentre (centred_box len) = (0, 0)"
    by (simp add: getCentre_def centred_box_def)
  show "rect_w (centred_box len) = len" "rect_h (centred_box len) = len"
    by (simp_all add: centred_box_def)
qed

theorem marker_shapes_for_positive_size_witness:
  "0 < (2::real)
   \<and> marker_type (Marker_ctor Circle) = Circle \<and> marker_type (Marker_ctor Pentagram) = Pentagram
   \<and> marker_type (Marker_ctor Square) = Square \<and> marker_type (Marker_ctor UpTriangle) = UpTriangle
   \<and> getBounds (getMarkerPathFrom (Marker_ctor Circle) 2)
       = \<lparr>rect_x = - 1, rect_y = - 1, rect_w = 2, rect_h = 2\<rparr>
   \<and> map getDistanceFromOrigin (path_points (getMarkerPathFrom (Marker_ctor Pentagram) 2))
       = [1, 1 / 2, 1, 1 / 2, 1, 1 / 2, 1, 1 / 2, 1, 1 / 2]
   \<and> getMarkerPathFrom (Marker_ctor Square) 2
       = [StartNewSubPath (- 1, 1), LineTo (- 1, - 1), LineTo (1, - 1), LineTo (1, 1), CloseSubPath]
   \<and> is_up_triangle (getMarkerPathFrom (Marker_ctor UpTriangle) 2) 2"
proof -
  have pos: "0 < (2::real)" by simp
  have c: "marker_type (Marker_ctor Circle) = Circle"
    and p: "marker_type (Marker_ctor Pentagram) = Pentagram"
    and s: "marker_type (Marker_ctor Square) = Square"
    and u: "marker_type (Marker_ctor UpTriangle) = UpTriangle"
    by (simp_all add: Marker_ctor_def)
  from marker_shapes_for_positive_size [OF pos c p s u]
  have "getBounds (getMarkerPathFrom (Marker_ctor Circle) 2) = centred_box 2"
    and "map getDistanceFromOrigin (path_points (getMarkerPathFrom (Marker_ctor Pentagram) 2))
          = [2 / 2, 2 / 4, 2 / 2, 2 / 4, 2 / 2, 2 / 4, 2 / 2, 2 / 4, 2 / 2, 2 / 4]"
    and "getMarkerPathFrom (Marker_ctor Square) 2
          = [StartNewSubPath (- 2 / 2, 2 / 2), LineTo (- 2 / 2, - 2 / 2),
             LineTo (2 / 2, - 2 / 2), LineTo (2 / 2, 2 / 2), CloseSubPath]"
    and "is_up_triangle (getMarkerPathFrom (Marker_ctor UpTriangle) 2) 2"
    by blast+
  then show ?thesis using c p s u by (simp add: centred_box_def)
qed

text \<open>
  Claim C7. For a marker type outside the seven enumerators and every length,
  \<open>getMarkerPathFrom\<close> returns the path without elements, which is empty. The function
  has a path as its result for every input: there is no error result.
\<close>

theorem unrecognized_type_gives_empty_path:
  assumes "marker_type marker \<notin> recognized_types"
  shows "getMarkerPathFrom marker len = [] \<and> isEmpty (getMarkerPathFrom marker len)"
  using assms by (simp add: getMarkerPathFrom_default isEmpty_def)

theorem unrecognized_type_gives_empty_path_witness:
  "marker_type (Marker_ctor 42) \<notin> recognized_types
   \<and> getMarkerPathFrom (Marker_ctor 42) 3 = []
   \<and> isEmpty (getMarkerPathFrom (Marker_ctor 42) 3)
   \<and> marker_type (Marker_ctor (- 1)) \<notin> recognized_types
   \<and> getMarkerPathFrom (Marker_ctor (- 1)) 3 = []"
  using unrecognized_type_gives_empty_path [of "Marker_ctor 42" 3]
    unrecognized_type_gives_empty_path [of "Marker_ctor (- 1)" 3]
  by (simp add: Marker_ctor_def recognized_types_def enumerator_defs isEmpty_def)

text \<open>
  Claim C8. The path is a function of the marker's type and of the length only: two
  markers with the same type give the same path for the same length, whatever their
  colours and stroke type. The function takes the marker by value and builds the path in
  a local variable, so it reads and writes no other state; it is a function of its two
  arguments here.
\<close>

theorem marker_path_depends_on_type_and_length_only:
  assumes "marker_type m1 = marker_type m2"
  shows "getMarkerPathFrom m1 len = getMarkerPathFrom m2 len"
  using assms by (simp add: getMarkerPathFrom_def)

theorem marker_path_depends_on_type_and_length_only_witness:
  "marker_type (Marker_ctor Square)
     = marker_type (Marker_ctor Square
         \<lparr>EdgeColour := Some 0xFF0000FF, FaceColour := Some 0xFF00FF00,
          edge_stroke_type := \<lparr>thickness = 3, joint_style = beveled, end_style = butt\<rparr>\<rparr>)
   \<and> getMarkerPathFrom (Marker_ctor Square) 2
     = getMarkerPathFrom (Marker_ctor Square
         \<lparr>EdgeColour := Some 0xFF0000FF, FaceColour := Some 0xFF00FF00,
          edge_stroke_type := \<lparr>thickness = 3, joint_style = beveled, end_style = butt\<rparr>\<rparr>) 2"
  using marker_path_depends_on_type_and_length_only [of "Marker_ctor Square"
      "Marker_ctor Square
         \<lparr>EdgeColour := Some 0xFF0000FF, FaceColour := Some 0xFF00FF00,
          edge_stroke_type := \<lparr>thickness = 3, joint_style = beveled, end_style = butt\<rparr>\<rparr>" 2]
  by (simp add: Marker_ctor_def)

end
